theory Spec2Isabelle
  imports Main
begin

section \<open>JavaScript values\<close>

text \<open>
  The values that flow through \<open>base-api-client.js\<close>: request data, parsed response
  bodies and form fields. Numbers (IEEE doubles) and binary payloads (Blob, File) are
  carried around by the client but never inspected, so their types are left abstract.
  A parsed JSON body and a value written as a literal are ordinary objects and arrays:
  they have no property that holds a function, and inherit from the built-in prototypes.
\<close>

typedecl number
typedecl blob

datatype jsval =
    JUndefined
  | JNull
  | JBool bool
  | JNum number
  | JStr string
  | JBlob blob
  | JArr "jsval list"
  | JObj "(string \<times> jsval) list"

text \<open>
  \<open>JObj kvs\<close> lists the own enumerable properties of an object in the order in which
  \<open>Object.keys\<close> enumerates them; the keys of an object are pairwise distinct.
\<close>

fun dec :: "nat \<Rightarrow> string" where
  "dec n = (if n < 10 then [''0123456789'' ! n]
            else dec (n div 10) @ [''0123456789'' ! (n mod 10)])"

declare dec.simps [simp del]

fun own_props :: "jsval \<Rightarrow> (string \<times> jsval) list" where
  "own_props (JObj kvs) = kvs"
| "own_props (JArr xs) = zip (map dec [0..<length xs]) xs"
| "own_props (JStr s) = zip (map dec [0..<length s]) (map (\<lambda>c. JStr [c]) s)"
| "own_props v = []"

fun nullish :: "jsval \<Rightarrow> bool" where
  "nullish JUndefined = True"
| "nullish JNull = True"
| "nullish v = False"

text \<open>What a failed operation throws (or an awaited promise rejects with).\<close>

record cause =
  c_status :: nat
  c_statusText :: string
  c_url :: string
  c_errors :: jsval

datatype thrown =
    TypeError
  | SyntaxError
  | Error string cause
  | Other string

text \<open>
  \<open>Error msg c\<close> is an \<open>Error\<close> object whose \<open>message\<close> reads \<open>msg\<close> and whose
  \<open>cause\<close> is \<open>c\<close>. \<open>TypeError\<close> is what the language raises on a property read
  from \<open>undefined\<close> or \<open>null\<close>, on \<open>Object.keys\<close> of such a value, on an object that
  cannot be converted to a string and on a URL that does not parse; \<open>SyntaxError\<close> is
  what JSON parsing raises; \<open>Other\<close> stands for any other exception of the platform.
\<close>

definition Object_keys :: "jsval \<Rightarrow> thrown + string list" where
  "Object_keys v = (if nullish v then Inl TypeError else Inr (map fst (own_props v)))"

definition own_value :: "jsval \<Rightarrow> string \<Rightarrow> jsval" where
  \<comment> \<open>\<open>v[key]\<close> on a value that is neither \<open>undefined\<close> nor \<open>null\<close>, for a key that no
      built-in prototype defines: the own property, or \<open>undefined\<close>.\<close>
  "own_value v key = (case map_of (own_props v) key of None \<Rightarrow> JUndefined | Some x \<Rightarrow> x)"

definition get_prop :: "jsval \<Rightarrow> string \<Rightarrow> thrown + jsval" where
  "get_prop v key = (if nullish v then Inl TypeError else Inr (own_value v key))"

section \<open>Requests, responses and the platform\<close>

record RequestConfig =
  endpoint :: string
  data :: jsval
  headers :: "(string \<rightharpoonup> string) option"
  query :: "(string \<times> string option) list option"

text \<open>
  An absent \<open>data\<close> is \<open>JUndefined\<close>; an absent \<open>headers\<close> or \<open>query\<close> is \<open>None\<close>. A
  query object lists its entries in key order, a value \<open>None\<close> being \<open>undefined\<close>.

  The URL object \<open>new URL(input, base)\<close> is kept symbolic: the two strings it was parsed
  from, and the pairs that \<open>searchParams.append\<close> has added since, in order.
\<close>

record URL =
  url_input :: string
  url_base :: string
  appended :: "(string \<times> string) list"

datatype formval = FText string | FFile blob

datatype body = Text string | Form "(string \<times> formval) list"

text \<open>
  \<open>Text t\<close> is a string body. \<open>Form fd\<close> is a \<open>FormData\<close> body: its entries in order,
  each a name with the string or the file that the \<open>FormData\<close> holds under it.
\<close>

text \<open>One call \<open>fetch(url, {method, headers, body})\<close>; \<open>f_body = None\<close> is no body.\<close>

record fetch_call =
  f_url :: URL
  f_method :: string
  f_headers :: "string \<rightharpoonup> string"
  f_body :: "body option"

text \<open>A response; \<open>json\<close> is what awaiting \<open>response.json()\<close> gives.\<close>

record Response =
  status :: nat
  statusText :: string
  url :: string
  json :: "thrown + jsval"

definition ok :: "Response \<Rightarrow> bool" where
  \<comment> \<open>\<open>response.ok\<close> of the Fetch standard\<close>
  "ok response = (200 \<le> status response \<and> status response \<le> 299)"

text \<open>
  What the client takes from its surroundings: the environment variable, the URL
  parser (only whether it accepts), \<open>JSON.stringify\<close> (\<open>None\<close> is \<open>undefined\<close>), the
  network, and how a number and a binary payload read as a string.
\<close>

record platform =
  API_URL :: "string option"
  url_valid :: "string \<Rightarrow> string \<Rightarrow> bool"
  JSON_stringify :: "jsval \<Rightarrow> string option"
  fetch :: "fetch_call \<Rightarrow> thrown + Response"
  Number_toString :: "number \<Rightarrow> string"
  Blob_toString :: "blob \<Rightarrow> string"

text \<open>
  The conversion of a value to a string (\<open>ToString\<close> of the language). An array reads
  as its elements joined by commas, \<open>undefined\<close> and \<open>null\<close> elements being empty. An
  object reads as \<open>[object Object]\<close> through the inherited \<open>toString\<close>; an own
  property \<open>toString\<close> hides that method and, being no function, leaves the object
  without a conversion.
\<close>

fun join :: "string list \<Rightarrow> string" where
  "join [] = []"
| "join [s] = s"
| "join (s # t # ss) = s @ '','' @ join (t # ss)"

fun ToString :: "platform \<Rightarrow> jsval \<Rightarrow> thrown + string"
  and elements :: "platform \<Rightarrow> jsval list \<Rightarrow> thrown + string list" where
  "ToString p JUndefined = Inr ''undefined''"
| "ToString p JNull = Inr ''null''"
| "ToString p (JBool b) = Inr (if b then ''true'' else ''false'')"
| "ToString p (JNum n) = Inr (Number_toString p n)"
| "ToString p (JStr s) = Inr s"
| "ToString p (JBlob b) = Inr (Blob_toString p b)"
| "ToString p (JArr xs) =
     (case elements p xs of Inl e \<Rightarrow> Inl e | Inr ss \<Rightarrow> Inr (join ss))"
| "ToString p (JObj kvs) =
     (if ''toString'' \<in> set (map fst kvs) then Inl TypeError else Inr ''[object Object]'')"
| "elements p [] = Inr []"
| "elements p (x # xs) =
     (case (if nullish x then Inr [] else ToString p x) of
        Inl e \<Rightarrow> Inl e
      | Inr s \<Rightarrow> (case elements p xs of Inl e \<Rightarrow> Inl e | Inr ss \<Rightarrow> Inr (s # ss)))"

text \<open>
  An operation yields the calls to \<open>fetch\<close> it has made and how it ended.
\<close>

type_synonym outcome = "fetch_call list \<times> (thrown + jsval)"

section \<open>BaseApiService\<close>

definition origin :: "platform \<Rightarrow> string" where
  \<comment> \<open>\<open>process.env.API_URL || "http://localhost:3001"\<close>; the empty string is falsy\<close>
  "origin p = (case API_URL p of
                 None \<Rightarrow> ''http://localhost:3001''
               | Some v \<Rightarrow> if v = [] then ''http://localhost:3001'' else v)"

definition new_URL :: "platform \<Rightarrow> string \<Rightarrow> string \<Rightarrow> thrown + URL" where
  "new_URL p input base =
     (if url_valid p input base
      then Inr \<lparr>url_input = input, url_base = base, appended = []\<rparr>
      else Inl TypeError)"

definition searchParams_append :: "URL \<Rightarrow> string \<Rightarrow> string \<Rightarrow> URL" where
  "searchParams_append u key v = u\<lparr>appended := appended u @ [(key, v)]\<rparr>"

definition query_at :: "(string \<times> string option) list \<Rightarrow> string \<Rightarrow> string option" where
  \<comment> \<open>\<open>rcfg.query[key]\<close>\<close>
  "query_at q key = (case map_of q key of None \<Rightarrow> None | Some v \<Rightarrow> v)"

definition append_query :: "URL \<Rightarrow> (string \<times> string option) list \<Rightarrow> URL" where
  "append_query u q =
     foldl (\<lambda>u' key. case query_at q key of
                        None \<Rightarrow> u'
                      | Some v \<Rightarrow> searchParams_append u' key v)
           u (map fst q)"

definition spread :: "(string \<rightharpoonup> string) option \<Rightarrow> (string \<rightharpoonup> string)" where
  "spread hs = (case hs of None \<Rightarrow> Map.empty | Some h \<Rightarrow> h)"

definition getHeaders :: "(string \<rightharpoonup> string) option \<Rightarrow> (string \<rightharpoonup> string)" where
  "getHeaders hs = [''Content-Type'' \<mapsto> ''application/json''] ++ spread hs"

definition new_Error :: "platform \<Rightarrow> jsval \<Rightarrow> cause \<Rightarrow> thrown + thrown" where
  \<comment> \<open>\<open>new Error(message, {cause: c})\<close>: the message is converted to a string unless it
      is \<open>undefined\<close>, and then the error reads the empty message of its prototype\<close>
  "new_Error p message c =
     (case message of
        JUndefined \<Rightarrow> Inr (Error [] c)
      | _ \<Rightarrow> (case ToString p message of Inl e \<Rightarrow> Inl e | Inr msg \<Rightarrow> Inr (Error msg c)))"

definition handleResponse :: "platform \<Rightarrow> Response \<Rightarrow> thrown + jsval" where
  "handleResponse p response =
     (case json response of
        Inl e \<Rightarrow> Inl e
      | Inr j \<Rightarrow>
          if \<not> ok response then
            (case get_prop j ''message'' of
               Inl e \<Rightarrow> Inl e
             | Inr message \<Rightarrow>
                 (case get_prop j ''errors'' of
                    Inl e \<Rightarrow> Inl e
                  | Inr errors \<Rightarrow>
                      (case new_Error p message
                              \<lparr>c_status = status response,
                               c_statusText = statusText response,
                               c_url = url response,
                               c_errors = errors\<rparr> of
                         Inl e \<Rightarrow> Inl e
                       | Inr err \<Rightarrow> Inl err)))
          else Inr j)"

definition issue :: "platform \<Rightarrow> fetch_call \<Rightarrow> outcome" where
  \<comment> \<open>\<open>const response = await fetch(...); return await this.handleResponse(response)\<close>\<close>
  "issue p c =
     ([c], case fetch p c of Inl e \<Rightarrow> Inl e | Inr response \<Rightarrow> handleResponse p response)"

definition get :: "platform \<Rightarrow> RequestConfig \<Rightarrow> outcome" where
  "get p rcfg =
     (case new_URL p (endpoint rcfg) (origin p) of
        Inl e \<Rightarrow> ([], Inl e)
      | Inr u \<Rightarrow>
          issue p \<lparr>f_url = (case query rcfg of None \<Rightarrow> u | Some q \<Rightarrow> append_query u q),
                   f_method = ''GET'',
                   f_headers = getHeaders (headers rcfg),
                   f_body = None\<rparr>)"

definition post :: "platform \<Rightarrow> RequestConfig \<Rightarrow> outcome" where
  "post p rcfg =
     (case new_URL p (endpoint rcfg) (origin p) of
        Inl e \<Rightarrow> ([], Inl e)
      | Inr u \<Rightarrow>
          issue p \<lparr>f_url = u,
                   f_method = ''POST'',
                   f_headers = getHeaders (headers rcfg),
                   f_body = map_option Text (JSON_stringify p (data rcfg))\<rparr>)"

definition put :: "platform \<Rightarrow> RequestConfig \<Rightarrow> outcome" where
  "put p rcfg =
     (case new_URL p (endpoint rcfg) (origin p) of
        Inl e \<Rightarrow> ([], Inl e)
      | Inr u \<Rightarrow>
          issue p \<lparr>f_url = u,
                   f_method = ''PUT'',
                   f_headers = getHeaders (headers rcfg),
                   f_body = map_option Text (JSON_stringify p (data rcfg))\<rparr>)"

definition patch :: "platform \<Rightarrow> RequestConfig \<Rightarrow> outcome" where
  "patch p rcfg =
     (case new_URL p (endpoint rcfg) (origin p) of
        Inl e \<Rightarrow> ([], Inl e)
      | Inr u \<Rightarrow>
          issue p \<lparr>f_url = u,
                   f_method = ''PATCH'',
                   f_headers = getHeaders (headers rcfg),
                   f_body = map_option Text (JSON_stringify p (data rcfg))\<rparr>)"

definition delete :: "platform \<Rightarrow> RequestConfig \<Rightarrow> outcome" where
  "delete p rcfg =
     (case new_URL p (endpoint rcfg) (origin p) of
        Inl e \<Rightarrow> ([], Inl e)
      | Inr u \<Rightarrow>
          issue p \<lparr>f_url = u,
                   f_method = ''DELETE'',
                   f_headers = getHeaders (headers rcfg),
                   f_body = None\<rparr>)"

definition FormData_append ::
  "platform \<Rightarrow> (string \<times> formval) list \<Rightarrow> string \<Rightarrow> jsval
     \<Rightarrow> thrown + (string \<times> formval) list" where
  \<comment> \<open>\<open>formData.append(name, value)\<close>: a binary payload is entered as a file, any other
      value as its conversion to a string\<close>
  "FormData_append p fd name v =
     (case v of
        JBlob b \<Rightarrow> Inr (fd @ [(name, FFile b)])
      | _ \<Rightarrow> (case ToString p v of
                Inl e \<Rightarrow> Inl e
              | Inr s \<Rightarrow> Inr (fd @ [(name, FText s)])))"

fun formData_of ::
  "platform \<Rightarrow> jsval \<Rightarrow> (string \<times> formval) list \<Rightarrow> string list
     \<Rightarrow> thrown + (string \<times> formval) list" where
  \<comment> \<open>\<open>keys.forEach((key) => formData.append(key, d[key]))\<close>, from the form \<open>fd\<close>\<close>
  "formData_of p d fd [] = Inr fd"
| "formData_of p d fd (key # keys) =
     (case FormData_append p fd key (own_value d key) of
        Inl e \<Rightarrow> Inl e
      | Inr fd' \<Rightarrow> formData_of p d fd' keys)"

definition upload :: "platform \<Rightarrow> RequestConfig \<Rightarrow> outcome" where
  "upload p rcfg =
     (case new_URL p (endpoint rcfg) (origin p) of
        Inl e \<Rightarrow> ([], Inl e)
      | Inr u \<Rightarrow>
          (case Object_keys (data rcfg) of
             Inl e \<Rightarrow> ([], Inl e)
           | Inr keys \<Rightarrow>
               (case formData_of p (data rcfg) [] keys of
                  Inl e \<Rightarrow> ([], Inl e)
                | Inr formData \<Rightarrow>
                    issue p \<lparr>f_url = u,
                             f_method = ''POST'',
                             f_headers = getHeaders (headers rcfg),
                             f_body = Some (Form formData)\<rparr>)))"

datatype verb = Get | Post | Put | Patch | Delete | Upload

fun call_verb :: "platform \<Rightarrow> verb \<Rightarrow> RequestConfig \<Rightarrow> outcome" where
  \<comment> \<open>\<open>this[method](rcfg)\<close>\<close>
  "call_verb p Get rcfg = get p rcfg"
| "call_verb p Post rcfg = post p rcfg"
| "call_verb p Put rcfg = put p rcfg"
| "call_verb p Patch rcfg = patch p rcfg"
| "call_verb p Delete rcfg = delete p rcfg"
| "call_verb p Upload rcfg = upload p rcfg"

definition credential_headers :: "string \<rightharpoonup> string" where
  "credential_headers =
     [''Content-Type'' \<mapsto> ''application/json'', ''credentials'' \<mapsto> ''include'']"

definition baseFn :: "platform \<Rightarrow> verb \<Rightarrow> RequestConfig \<Rightarrow> outcome" where
  "baseFn p method rcfg =
     call_verb p method
       (rcfg\<lparr>headers := Some (spread (headers rcfg) ++ credential_headers)\<rparr>)"

record credentialed =
  wc_get :: "RequestConfig \<Rightarrow> outcome"
  wc_post :: "RequestConfig \<Rightarrow> outcome"
  wc_put :: "RequestConfig \<Rightarrow> outcome"
  wc_patch :: "RequestConfig \<Rightarrow> outcome"
  wc_delete :: "RequestConfig \<Rightarrow> outcome"

definition withCredentials :: "platform \<Rightarrow> credentialed" where
  "withCredentials p =
     \<lparr>wc_get = baseFn p Get,
      wc_post = baseFn p Post,
      wc_put = baseFn p Put,
      wc_patch = baseFn p Patch,
      wc_delete = baseFn p Delete\<rparr>"

section \<open>Scenarios\<close>

text \<open>
  Concrete surroundings on which the operations are evaluated: the users endpoint of the
  default local server. The URL parser and \<open>JSON.stringify\<close> are given on the inputs
  of the scenarios only; \<open>fetch\<close> resolves with the response handed in. No scenario
  holds a number or a binary payload, whose readings are fixed arbitrarily.
\<close>

fun scenario_stringify :: "jsval \<Rightarrow> string option" where
  \<open>scenario_stringify (JObj [(k, JStr s)]) =
     (if k = ''name'' \<and> s = ''Ada'' then Some ''{"name":"Ada"}'' else None)\<close>
| \<open>scenario_stringify v = None\<close>

definition scenario_platform :: "string option \<Rightarrow> Response \<Rightarrow> platform" where
  "scenario_platform env response =
     \<lparr>API_URL = env,
      url_valid = (\<lambda>input base. input = ''/users'' \<and>
                     (base = ''http://localhost:3001'' \<or> base = ''https://api.example.com'')),
      JSON_stringify = scenario_stringify,
      fetch = (\<lambda>c. Inr response),
      Number_toString = (\<lambda>n. ''0''),
      Blob_toString = (\<lambda>b. ''[object Blob]'')\<rparr>"

definition users_response :: Response where
  "users_response =
     \<lparr>status = 200, statusText = ''OK'', url = ''http://localhost:3001/users'',
      json = Inr (JObj [(''message'', JStr ''ok''), (''data'', JArr [])])\<rparr>"

definition invalid_name_response :: Response where
  "invalid_name_response =
     \<lparr>status = 400, statusText = ''Bad Request'', url = ''http://localhost:3001/users'',
      json = Inr (JObj [(''message'', JStr ''invalid name''),
                        (''errors'', JObj [(''name'', JStr ''required'')])])\<rparr>"

definition error_response :: "jsval \<Rightarrow> Response" where
  "error_response j =
     \<lparr>status = 500, statusText = ''Internal Server Error'',
      url = ''http://localhost:3001/users'', json = Inr j\<rparr>"

definition empty_body_response :: Response where
  "empty_body_response =
     \<lparr>status = 502, statusText = ''Bad Gateway'', url = ''http://localhost:3001/users'',
      json = Inl SyntaxError\<rparr>"

definition users_config :: RequestConfig where
  "users_config =
     \<lparr>endpoint = ''/users'', data = JObj [(''name'', JStr ''Ada'')], headers = None,
      query = Some [(''page'', Some ''2''), (''search'', None), (''limit'', Some ''10'')]\<rparr>"

definition override_config :: RequestConfig where
  "override_config =
     \<lparr>endpoint = ''/users'', data = JObj [(''name'', JStr ''Ada'')],
      headers = Some [''Content-Type'' \<mapsto> ''text/plain'', ''credentials'' \<mapsto> ''omit'',
                      ''X-Trace'' \<mapsto> ''1''],
      query = None\<rparr>"

definition avatar_config :: RequestConfig where
  "avatar_config =
     \<lparr>endpoint = ''/users'',
      data = JObj [(''name'', JStr ''Ada''), (''avatar'', JStr ''ada.png'')],
      headers = None, query = None\<rparr>"

definition flags_config :: RequestConfig where
  "flags_config =
     \<lparr>endpoint = ''/users'', data = JObj [(''flag'', JBool True), (''n'', JNull)],
      headers = None, query = None\<rparr>"

text \<open>The value that a form entry holds, as a value of the language.\<close>

fun as_jsval :: "formval \<Rightarrow> jsval" where
  "as_jsval (FText s) = JStr s"
| "as_jsval (FFile b) = JBlob b"

section \<open>Properties of the building blocks\<close>

lemmas verb_defs = get_def post_def put_def patch_def delete_def upload_def

lemmas scenario_defs = scenario_platform_def users_config_def origin_def new_URL_def

text \<open>An operation that reached \<open>fetch\<close> ends the way \<open>handleResponse\<close> ends.\<close>

lemma call_verb_outcome:
  assumes "fst (call_verb p m rcfg) = [c]"
  shows "snd (call_verb p m rcfg) =
           (case fetch p c of Inl e \<Rightarrow> Inl e | Inr response \<Rightarrow> handleResponse p response)"
  using assms
  by (cases m) (auto simp: verb_defs issue_def split: sum.splits)

lemma call_verb_headers:
  assumes "c \<in> set (fst (call_verb p m rcfg))"
  shows "f_headers c = getHeaders (headers rcfg)"
  using assms
  by (cases m) (auto simp: verb_defs issue_def split: sum.splits option.splits)

text \<open>The loop over the query keys, as one list expression.\<close>

lemma append_query_step:
  "foldl (\<lambda>u' key. case query_at q key of None \<Rightarrow> u' | Some v \<Rightarrow> searchParams_append u' key v)
         u ks
   = u\<lparr>appended := appended u @
          concat (map (\<lambda>key. case query_at q key of None \<Rightarrow> [] | Some v \<Rightarrow> [(key, v)]) ks)\<rparr>"
  by (induction ks arbitrary: u) (auto simp: searchParams_append_def split: option.splits)

lemma query_at_distinct:
  "distinct (map fst q) \<Longrightarrow> (k, v) \<in> set q \<Longrightarrow> query_at q k = v"
  by (simp add: query_at_def)

lemma append_query_keeps:
  "url_input (append_query u q) = url_input u \<and> url_base (append_query u q) = url_base u"
  by (simp add: append_query_def append_query_step)

lemma defined_entries:
  assumes "distinct (map fst q)" and "set q' \<subseteq> set q"
  shows "concat (map (\<lambda>key. case query_at q key of None \<Rightarrow> [] | Some v \<Rightarrow> [(key, v)])
                  (map fst q'))
         = [(k, v). (k, Some v) \<leftarrow> q']"
  using assms(2)
proof (induction q')
  case Nil
  show ?case by simp
next
  case (Cons e q')
  obtain k v where e: "e = (k, v)" by (cases e)
  with Cons.prems have "(k, v) \<in> set q" by simp
  with assms(1) have "query_at q k = v" by (rule query_at_distinct)
  with Cons e show ?case by (cases v) simp_all
qed

lemma append_query_eq:
  assumes "distinct (map fst q)"
  shows "append_query u q = u\<lparr>appended := appended u @ [(k, v). (k, Some v) \<leftarrow> q]\<rparr>"
  using defined_entries [OF assms, of q]
  by (simp add: append_query_def append_query_step)

lemma call_verb_base:
  assumes "c \<in> set (fst (call_verb p m rcfg))"
  shows "url_input (f_url c) = endpoint rcfg \<and> url_base (f_url c) = origin p"
  using assms
  by (cases m)
    (auto simp: verb_defs issue_def new_URL_def append_query_keeps
          split: sum.splits if_splits option.splits)

text \<open>
  \<open>get\<close> resolves the endpoint against the origin and appends the query entries whose
  value is not \<open>undefined\<close>, in key order.
\<close>

lemma get_url:
  assumes "url_valid p (endpoint rcfg) (origin p)" and "query rcfg = Some q"
    and "distinct (map fst q)"
  shows "map f_url (fst (get p rcfg)) =
           [\<lparr>url_input = endpoint rcfg, url_base = origin p,
             appended = [(k, v). (k, Some v) \<leftarrow> q]\<rparr>]"
  using assms by (simp add: get_def new_URL_def issue_def append_query_eq)

text \<open>No other operation reads \<open>rcfg.query\<close>.\<close>

lemma other_verbs_ignore_query:
  assumes "m \<noteq> Get" and "c \<in> set (fst (call_verb p m rcfg))"
  shows "appended (f_url c) = []"
  using assms
  by (cases m) (auto simp: verb_defs issue_def new_URL_def split: sum.splits if_splits)

lemma scenario_issues:
  "e = None \<or> e = Some [] \<or> e = Some ''https://api.example.com'' \<Longrightarrow>
   \<exists>c. fst (call_verb (scenario_platform e r) m users_config) = [c]"
  by (cases m)
    (auto simp: verb_defs scenario_defs issue_def Object_keys_def FormData_append_def
        own_value_def)

lemma scenario_get_url:
  assumes "e = None \<or> e = Some []"
  shows "map f_url (fst (get (scenario_platform e r) users_config))
         = [\<lparr>url_input = ''/users'', url_base = ''http://localhost:3001'',
             appended = [(''page'', ''2''), (''limit'', ''10'')]\<rparr>]"
proof -
  have "url_valid (scenario_platform e r) (endpoint users_config)
          (origin (scenario_platform e r))"
    using assms by (auto simp: scenario_defs)
  moreover have "query users_config
                   = Some [(''page'', Some ''2''), (''search'', None), (''limit'', Some ''10'')]"
    by (simp add: users_config_def)
  ultimately show ?thesis
    using get_url [of "scenario_platform e r" users_config] assms
    by (auto simp: scenario_defs)
qed

text \<open>
  The loop of \<open>upload\<close> over the keys of an object of strings and binary payloads
  rebuilds the entries of the object.
\<close>

lemma FormData_append_as_jsval:
  "FormData_append p fd name (as_jsval x) = Inr (fd @ [(name, x)])"
  by (cases x) (simp_all add: FormData_append_def)

lemma own_value_as_jsval:
  assumes "distinct (map fst entries)" and "(key, x) \<in> set entries"
  shows "own_value (JObj (map (\<lambda>(key, x). (key, as_jsval x)) entries)) key = as_jsval x"
proof -
  from assms have "map_of entries key = Some x" by simp
  then show ?thesis by (simp add: own_value_def map_of_map)
qed

lemma formData_of_as_jsval:
  assumes "distinct (map fst entries)" and "set fs \<subseteq> set entries"
  shows "formData_of p (JObj (map (\<lambda>(key, x). (key, as_jsval x)) entries)) fd (map fst fs)
           = Inr (fd @ fs)"
  using assms(2)
proof (induction fs arbitrary: fd)
  case Nil
  show ?case by simp
next
  case (Cons f fs)
  obtain key x where f: "f = (key, x)" by (cases f)
  with Cons.prems have "(key, x) \<in> set entries" by simp
  with assms(1)
  have "own_value (JObj (map (\<lambda>(key, x). (key, as_jsval x)) entries)) key = as_jsval x"
    by (rule own_value_as_jsval)
  with Cons f show ?case by (simp add: FormData_append_as_jsval)
qed

section \<open>The request URL\<close>

text \<open>
  C1: every verb operation (get, post, put, patch, delete, upload) issues its request to
  the origin joined with the endpoint, followed by the query entries whose value is not
  \<open>undefined\<close>, in key order. Only \<open>get\<close> does (\<open>get_url\<close>); the other five never read
  \<open>rcfg.query\<close>. On the same configuration, with \<open>page\<close> and \<open>limit\<close> set, \<open>get\<close>
  requests \<open>/users\<close> with both parameters and \<open>post\<close> requests it with none.
\<close>

theorem post_ignores_query:
  "query users_config
     = Some [(''page'', Some ''2''), (''search'', None), (''limit'', Some ''10'')] \<and>
   map f_url (fst (get (scenario_platform None users_response) users_config))
     = [\<lparr>url_input = ''/users'', url_base = ''http://localhost:3001'',
         appended = [(''page'', ''2''), (''limit'', ''10'')]\<rparr>] \<and>
   map f_url (fst (post (scenario_platform None users_response) users_config))
     = [\<lparr>url_input = ''/users'', url_base = ''http://localhost:3001'', appended = []\<rparr>]"
proof -
  have "map f_url (fst (post (scenario_platform None users_response) users_config))
     = [\<lparr>url_input = ''/users'', url_base = ''http://localhost:3001'', appended = []\<rparr>]"
    by (simp add: post_def scenario_defs issue_def)
  then show ?thesis
    using scenario_get_url [of None users_response]
    by (simp add: users_config_def)
qed

text \<open>
  C9, as amended: every request of every verb operation resolves the endpoint against
  the value of the environment variable when that value is a non-empty string, and
  against \<open>http://localhost:3001\<close> when the variable is unset or empty.
\<close>

theorem base_origin:
  assumes "c \<in> set (fst (call_verb p m rcfg))"
  shows "(\<forall>v. API_URL p = Some v \<and> v \<noteq> [] \<longrightarrow> url_base (f_url c) = v) \<and>
         (API_URL p = None \<or> API_URL p = Some [] \<longrightarrow>
            url_base (f_url c) = ''http://localhost:3001'')"
  using call_verb_base [OF assms] by (auto simp: origin_def)

theorem base_origin_witness:
  "map (\<lambda>c. url_base (f_url c))
     (fst (call_verb (scenario_platform (Some ''https://api.example.com'') users_response)
        Put users_config))
     = [''https://api.example.com''] \<and>
   map (\<lambda>c. url_base (f_url c))
     (fst (call_verb (scenario_platform None users_response) Put users_config))
     = [''http://localhost:3001'']"
proof -
  let ?p = "scenario_platform (Some ''https://api.example.com'') users_response"
  let ?q = "scenario_platform None users_response"
  obtain c where c: "fst (call_verb ?p Put users_config) = [c]"
    using scenario_issues [of "Some ''https://api.example.com''" users_response Put] by auto
  obtain d where d: "fst (call_verb ?q Put users_config) = [d]"
    using scenario_issues [of None users_response Put] by auto
  have e: "API_URL ?p = Some ''https://api.example.com''" "API_URL ?q = None"
    by (simp_all add: scenario_platform_def)
  have "c \<in> set (fst (call_verb ?p Put users_config))"
    and "d \<in> set (fst (call_verb ?q Put users_config))"
    using c d by simp_all
  then show ?thesis
    using base_origin [of c ?p Put users_config] base_origin [of d ?q Put users_config] c d e
    by simp
qed

text \<open>
  With the variable set to the empty string, the endpoint is resolved against the
  default address and not against the value of the variable.
\<close>

theorem empty_API_URL_counterexample:
  "API_URL (scenario_platform (Some []) users_response) = Some [] \<and>
   map f_url (fst (get (scenario_platform (Some []) users_response) users_config))
   = [\<lparr>url_input = ''/users'', url_base = ''http://localhost:3001'',
       appended = [(''page'', ''2''), (''limit'', ''10'')]\<rparr>]"
  using scenario_get_url [of "Some []" users_response]
  by (simp add: scenario_platform_def)

section \<open>Headers\<close>

text \<open>
  C5: \<open>getHeaders(custom)\<close> holds \<open>Content-Type: application/json\<close> unless \<open>custom\<close>
  has a \<open>Content-Type\<close> key, and holds every entry of \<open>custom\<close>, so that the caller's
  value wins on a key that both have; without custom headers the default alone is there.
\<close>

theorem getHeaders_merge:
  "(custom ''Content-Type'' = None \<longrightarrow>
      getHeaders (Some custom) ''Content-Type'' = Some ''application/json'') \<and>
   (\<forall>key v. custom key = Some v \<longrightarrow> getHeaders (Some custom) key = Some v) \<and>
   getHeaders None ''Content-Type'' = Some ''application/json''"
  by (simp add: getHeaders_def spread_def map_add_def)

theorem getHeaders_merge_witness:
  "getHeaders (Some [''X-Trace'' \<mapsto> ''1'']) ''Content-Type'' = Some ''application/json'' \<and>
   getHeaders (Some [''X-Trace'' \<mapsto> ''1'']) ''X-Trace'' = Some ''1'' \<and>
   getHeaders (Some [''Content-Type'' \<mapsto> ''text/plain'']) ''Content-Type'' = Some ''text/plain''"
proof -
  have a: "[''X-Trace'' \<mapsto> ''1''] ''Content-Type'' = None" by simp
  have b: "[''X-Trace'' \<mapsto> ''1''] ''X-Trace'' = Some ''1''" by simp
  have c: "[''Content-Type'' \<mapsto> ''text/plain''] ''Content-Type'' = Some ''text/plain''" by simp
  show ?thesis
    using getHeaders_merge [of "[''X-Trace'' \<mapsto> ''1'']"]
      getHeaders_merge [of "[''Content-Type'' \<mapsto> ''text/plain'']"] a b c
    by blast
qed

text \<open>
  C4: whatever headers the caller supplies, every request made through an operation
  obtained from \<open>withCredentials()\<close> carries \<open>credentials: include\<close> and
  \<open>Content-Type: application/json\<close>: the fixed pair is merged after the caller's
  headers and overrides them.
\<close>

theorem withCredentials_headers:
  assumes "f \<in> {wc_get (withCredentials p), wc_post (withCredentials p),
                 wc_put (withCredentials p), wc_patch (withCredentials p),
                 wc_delete (withCredentials p)}"
    and "c \<in> set (fst (f rcfg))"
  shows "f_headers c ''credentials'' = Some ''include'' \<and>
         f_headers c ''Content-Type'' = Some ''application/json''"
proof -
  from assms(1) obtain m where "f = baseFn p m"
    by (auto simp: withCredentials_def)
  with assms(2) have "f_headers c =
      getHeaders (Some (spread (headers rcfg) ++ credential_headers))"
    using call_verb_headers
      [of c p m "rcfg\<lparr>headers := Some (spread (headers rcfg) ++ credential_headers)\<rparr>"]
    by (simp add: baseFn_def)
  then show ?thesis
    by (simp add: getHeaders_def spread_def credential_headers_def map_add_def)
qed

theorem withCredentials_headers_witness:
  "headers override_config =
     Some [''Content-Type'' \<mapsto> ''text/plain'', ''credentials'' \<mapsto> ''omit'',
           ''X-Trace'' \<mapsto> ''1''] \<and>
   map (\<lambda>c. (f_headers c ''credentials'', f_headers c ''Content-Type''))
     (fst (wc_put (withCredentials (scenario_platform None users_response)) override_config))
   = [(Some ''include'', Some ''application/json'')]"
proof -
  let ?p = "scenario_platform None users_response"
  obtain c where c: "fst (wc_put (withCredentials ?p) override_config) = [c]"
    by (simp add: withCredentials_def baseFn_def put_def issue_def scenario_platform_def
        override_config_def origin_def new_URL_def)
  have m: "wc_put (withCredentials ?p) \<in>
      {wc_get (withCredentials ?p), wc_post (withCredentials ?p),
       wc_put (withCredentials ?p), wc_patch (withCredentials ?p),
       wc_delete (withCredentials ?p)}"
    by simp
  have i: "c \<in> set (fst (wc_put (withCredentials ?p) override_config))"
    using c by simp
  show ?thesis
    using withCredentials_headers [OF m i] c
    by (simp add: override_config_def)
qed

text \<open>
  C10: when the caller's headers do not set \<open>Content-Type\<close>, \<open>upload\<close> sends its form
  body under \<open>Content-Type: application/json\<close>, the default of \<open>getHeaders\<close>.
\<close>

theorem upload_content_type:
  assumes "c \<in> set (fst (upload p rcfg))"
    and "spread (headers rcfg) ''Content-Type'' = None"
  shows "f_headers c ''Content-Type'' = Some ''application/json'' \<and>
         (\<exists>formData.
            formData_of p (data rcfg) [] (map fst (own_props (data rcfg))) = Inr formData \<and>
            f_body c = Some (Form formData))"
  using assms
  by (auto simp: upload_def issue_def getHeaders_def map_add_def Object_keys_def
      split: sum.splits if_splits)

theorem upload_content_type_witness:
  "map (\<lambda>c. f_headers c ''Content-Type'')
     (fst (upload (scenario_platform None users_response) avatar_config))
     = [Some ''application/json'']"
proof -
  let ?p = "scenario_platform None users_response"
  obtain c where c: "fst (upload ?p avatar_config) = [c]"
    by (simp add: upload_def issue_def scenario_platform_def avatar_config_def origin_def
        new_URL_def Object_keys_def FormData_append_def own_value_def)
  have h: "spread (headers avatar_config) ''Content-Type'' = None"
    by (simp add: avatar_config_def spread_def)
  have "c \<in> set (fst (upload ?p avatar_config))" using c by simp
  then show ?thesis
    using upload_content_type [OF _ h, of c ?p] c by simp
qed

section \<open>Request bodies\<close>

text \<open>
  C7: \<open>post\<close>, \<open>put\<close> and \<open>patch\<close> each send one request, whose body is
  \<open>JSON.stringify\<close> of \<open>config.data\<close> (nothing where that is \<open>undefined\<close>); \<open>get\<close>
  and \<open>delete\<close> each send one request without a body. The only condition is that the
  endpoint parses against the origin, without which no operation sends anything.
\<close>

theorem request_bodies:
  assumes "url_valid p (endpoint rcfg) (origin p)"
  shows "(m \<in> {Post, Put, Patch} \<longrightarrow>
            map f_body (fst (call_verb p m rcfg))
              = [map_option Text (JSON_stringify p (data rcfg))]) \<and>
         (m \<in> {Get, Delete} \<longrightarrow> map f_body (fst (call_verb p m rcfg)) = [None])"
  using assms
  by (cases m) (simp_all add: verb_defs new_URL_def issue_def)

theorem request_bodies_witness:
  \<open>map (\<lambda>m. map f_body
               (fst (call_verb (scenario_platform None users_response) m users_config)))
     [Post, Put, Patch, Get, Delete]
   = [[Some (Text ''{"name":"Ada"}'')], [Some (Text ''{"name":"Ada"}'')],
      [Some (Text ''{"name":"Ada"}'')], [None], [None]]\<close>
proof -
  let ?p = "scenario_platform None users_response"
  have v: "url_valid ?p (endpoint users_config) (origin ?p)"
    by (simp add: scenario_defs)
  have s: \<open>JSON_stringify ?p (data users_config) = Some ''{"name":"Ada"}''\<close>
    by (simp add: scenario_platform_def users_config_def)
  show ?thesis
    using request_bodies [OF v, of Post] request_bodies [OF v, of Put]
      request_bodies [OF v, of Patch] request_bodies [OF v, of Get]
      request_bodies [OF v, of Delete] s
    by simp
qed

text \<open>
  C6, as amended: for a flat mapping of strings and binary payloads (Blob, File) passed
  as \<open>config.data\<close>, \<open>upload\<close> sends one request whose body is a form with exactly one
  field per entry of the mapping, in order, named by the entry's key and holding the
  entry's value.
\<close>

theorem upload_form_fields:
  assumes "url_valid p (endpoint rcfg) (origin p)"
    and "data rcfg = JObj (map (\<lambda>(key, x). (key, as_jsval x)) entries)"
    and "distinct (map fst entries)"
  shows "map f_body (fst (upload p rcfg)) = [Some (Form entries)]"
proof -
  have "map fst (own_props (data rcfg)) = map fst entries"
    using assms(2) by (simp add: comp_def case_prod_unfold)
  then have keys: "Object_keys (data rcfg) = Inr (map fst entries)"
    using assms(2) by (simp add: Object_keys_def)
  have "formData_of p (data rcfg) [] (map fst entries) = Inr entries"
    using formData_of_as_jsval [OF assms(3), of entries p "[]"] assms(2) by simp
  with keys assms(1) show ?thesis
    by (simp add: upload_def new_URL_def issue_def)
qed

theorem upload_form_fields_witness:
  "data avatar_config = JObj [(''name'', JStr ''Ada''), (''avatar'', JStr ''ada.png'')] \<and>
   map f_body (fst (upload (scenario_platform None users_response) avatar_config))
     = [Some (Form [(''name'', FText ''Ada''), (''avatar'', FText ''ada.png'')])]"
proof -
  let ?p = "scenario_platform None users_response"
  let ?entries = "[(''name'', FText ''Ada''), (''avatar'', FText ''ada.png'')]"
  have v: "url_valid ?p (endpoint avatar_config) (origin ?p)"
    by (simp add: scenario_platform_def avatar_config_def origin_def)
  have d: "data avatar_config = JObj (map (\<lambda>(key, x). (key, as_jsval x)) ?entries)"
    by (simp add: avatar_config_def)
  have k: "distinct (map fst ?entries)"
    by simp
  show ?thesis
    using upload_form_fields [OF v d k] d by simp
qed

text \<open>
  A mapping with a boolean and a \<open>null\<close>: the form fields hold the strings \<open>true\<close>
  and \<open>null\<close>, not the values of the entries.
\<close>

theorem upload_converts_counterexample:
  "data flags_config = JObj [(''flag'', JBool True), (''n'', JNull)] \<and>
   map f_body (fst (upload (scenario_platform None users_response) flags_config))
     = [Some (Form [(''flag'', FText ''true''), (''n'', FText ''null'')])]"
  by (simp add: upload_def issue_def scenario_platform_def flags_config_def origin_def
      new_URL_def Object_keys_def FormData_append_def own_value_def)

section \<open>Responses\<close>

text \<open>
  C3: when the response has a status from 200 to 299 and its body parses as JSON, every
  verb operation returns the parsed body itself.
\<close>

theorem success_returns_body:
  assumes "fst (call_verb p m rcfg) = [c]" and "fetch p c = Inr response"
    and "200 \<le> status response" and "status response \<le> 299"
    and "json response = Inr j"
  shows "snd (call_verb p m rcfg) = Inr j"
proof -
  have "handleResponse p response = Inr j"
    using assms(3,4,5) by (simp add: handleResponse_def ok_def)
  then show ?thesis
    using call_verb_outcome [OF assms(1)] assms(2) by simp
qed

theorem success_returns_body_witness:
  "snd (call_verb (scenario_platform None users_response) Get users_config) =
     Inr (JObj [(''message'', JStr ''ok''), (''data'', JArr [])])"
proof -
  let ?p = "scenario_platform None users_response"
  obtain c where c: "fst (call_verb ?p Get users_config) = [c]"
    using scenario_issues [of None users_response Get] by auto
  have f: "fetch ?p c = Inr users_response"
    by (simp add: scenario_platform_def)
  have s: "200 \<le> status users_response" "status users_response \<le> 299"
    by (simp_all add: users_response_def)
  have j: "json users_response = Inr (JObj [(''message'', JStr ''ok''), (''data'', JArr [])])"
    by (simp add: users_response_def)
  show ?thesis
    using success_returns_body [OF c f s j] .
qed

text \<open>
  C2, as amended: when the response has a status outside 200 to 299 and its body parses
  as JSON to a value whose \<open>message\<close> field is a string, every verb operation raises an
  error whose message equals that field and whose cause holds the status, the status
  text and the URL of the response and the \<open>errors\<close> field of the parsed body as it is.
\<close>

theorem failing_response_raises:
  assumes "fst (call_verb p m rcfg) = [c]" and "fetch p c = Inr response"
    and "status response < 200 \<or> 299 < status response"
    and "json response = Inr j" and "own_value j ''message'' = JStr msg"
  shows "snd (call_verb p m rcfg) =
           Inl (Error msg
                  \<lparr>c_status = status response, c_statusText = statusText response,
                   c_url = url response, c_errors = own_value j ''errors''\<rparr>)"
proof -
  have "\<not> nullish j" using assms(5) by (cases j) (simp_all add: own_value_def)
  moreover have "\<not> ok response" using assms(3) by (auto simp: ok_def)
  ultimately have "handleResponse p response =
      Inl (Error msg
                  \<lparr>c_status = status response, c_statusText = statusText response,
                   c_url = url response, c_errors = own_value j ''errors''\<rparr>)"
    using assms(4,5) by (simp add: handleResponse_def get_prop_def new_Error_def)
  then show ?thesis
    using call_verb_outcome [OF assms(1)] assms(2) by simp
qed

theorem failing_response_raises_witness:
  "snd (call_verb (scenario_platform None invalid_name_response) Post users_config) =
     Inl (Error ''invalid name''
            \<lparr>c_status = 400, c_statusText = ''Bad Request'',
             c_url = ''http://localhost:3001/users'',
             c_errors = JObj [(''name'', JStr ''required'')]\<rparr>)"
proof -
  let ?p = "scenario_platform None invalid_name_response"
  let ?j = "JObj [(''message'', JStr ''invalid name''),
                  (''errors'', JObj [(''name'', JStr ''required'')])]"
  obtain c where c: "fst (call_verb ?p Post users_config) = [c]"
    using scenario_issues [of None invalid_name_response Post] by auto
  have f: "fetch ?p c = Inr invalid_name_response"
    by (simp add: scenario_platform_def)
  have s: "status invalid_name_response < 200 \<or> 299 < status invalid_name_response"
    by (simp add: invalid_name_response_def)
  have j: "json invalid_name_response = Inr ?j"
    by (simp add: invalid_name_response_def)
  have n: "own_value ?j ''message'' = JStr ''invalid name''"
    by (simp add: own_value_def)
  show ?thesis
    using failing_response_raises [OF c f s j n]
    by (simp add: invalid_name_response_def own_value_def)
qed

text \<open>
  Responses with status 500 on which no error with the body's \<open>message\<close> field as its
  message is raised. A body \<open>null\<close>: reading \<open>message\<close> from it raises a \<open>TypeError\<close>.
  A body \<open>{}\<close>: the field is \<open>undefined\<close> and the message of the error is the empty
  string. A body whose \<open>message\<close> is the array of \<open>a\<close> and \<open>b\<close>: the message of the
  error is the string \<open>a,b\<close>. A body whose \<open>message\<close> is an object with a \<open>toString\<close>
  entry: the conversion of the message raises a \<open>TypeError\<close>.
\<close>

theorem failing_response_counterexample:
  "\<not> ok (error_response JNull) \<and> json (error_response JNull) = Inr JNull \<and>
   snd (post (scenario_platform None (error_response JNull)) users_config) = Inl TypeError \<and>
   own_value (JObj []) ''message'' = JUndefined \<and>
   snd (post (scenario_platform None (error_response (JObj []))) users_config)
     = Inl (Error []
              \<lparr>c_status = 500, c_statusText = ''Internal Server Error'',
               c_url = ''http://localhost:3001/users'', c_errors = JUndefined\<rparr>) \<and>
   snd (post (scenario_platform None
                (error_response (JObj [(''message'', JArr [JStr ''a'', JStr ''b''])])))
          users_config)
     = Inl (Error ''a,b''
              \<lparr>c_status = 500, c_statusText = ''Internal Server Error'',
               c_url = ''http://localhost:3001/users'', c_errors = JUndefined\<rparr>) \<and>
   snd (post (scenario_platform None
                (error_response (JObj [(''message'', JObj [(''toString'', JBool True)])])))
          users_config)
     = Inl TypeError"
  by (simp add: post_def scenario_defs issue_def handleResponse_def ok_def error_response_def
      get_prop_def new_Error_def own_value_def)

text \<open>
  C8: when the body of the response is not JSON, whatever the status, every verb
  operation fails with the very failure of the parsing; in particular no \<open>Error\<close> with
  a cause is raised for a status outside 200 to 299.
\<close>

theorem parse_failure_propagates:
  assumes "fst (call_verb p m rcfg) = [c]" and "fetch p c = Inr response"
    and "json response = Inl e"
  shows "snd (call_verb p m rcfg) = Inl e"
proof -
  have "handleResponse p response = Inl e"
    using assms(3) by (simp add: handleResponse_def)
  then show ?thesis
    using call_verb_outcome [OF assms(1)] assms(2) by simp
qed

theorem parse_failure_propagates_witness:
  "\<not> ok empty_body_response \<and>
   snd (call_verb (scenario_platform None empty_body_response) Delete users_config) =
     Inl SyntaxError"
proof -
  let ?p = "scenario_platform None empty_body_response"
  obtain c where c: "fst (call_verb ?p Delete users_config) = [c]"
    using scenario_issues [of None empty_body_response Delete] by auto
  have f: "fetch ?p c = Inr empty_body_response"
    by (simp add: scenario_platform_def)
  have j: "json empty_body_response = Inl SyntaxError"
    by (simp add: empty_body_response_def)
  have "\<not> ok empty_body_response"
    by (simp add: ok_def empty_body_response_def)
  then show ?thesis
    using parse_failure_propagates [OF c f j] by simp
qed

end
